theory Spec2Isabelle
  imports Main
begin

section \<open>The backtest run orchestrator of \<^verbatim>\<open>zipline/utils/run_algo.py\<close>\<close>

text \<open>
  The module has three functions: \<^verbatim>\<open>load_extensions\<close>, \<^verbatim>\<open>_run\<close> and
  \<^verbatim>\<open>run_algorithm\<close>.  They are orchestration code: nearly every line calls a
  collaborator (the file system, the importer, \<^verbatim>\<open>eval\<close>, the bundle loader, the
  simulation).  The embedding keeps the control flow of the three functions as it is written
  and takes the collaborators as the fields of a record \<open>host\<close>.  A collaborator that runs
  user code or touches storage is a function on an abstract world \<open>'w\<close> that returns a value
  or raises; the objects the orchestrator only hands on (calendars, readers, callables, the
  performance frame) are values of an abstract type \<open>'o\<close>.

  What the embedding takes for granted:
  \<^item> the code of an extension, of a definition or of the strategy does not touch the module's
    own \<^verbatim>\<open>_loaded_extensions\<close>, and \<^verbatim>\<open>eval\<close> reads the namespace it is given without
    rebinding its names;
  \<^item> \<^verbatim>\<open>warnings.warn\<close> and \<^verbatim>\<open>click.echo\<close> return (no filter turns the warning into
    an error, the display sink can be written to);
  \<^item> attribute reads and formatting (\<^verbatim>\<open>session_distance\<close>, \<^verbatim>\<open>date()\<close>,
    \<^verbatim>\<open>first_trading_day\<close>, \<^verbatim>\<open>str\<close>, \<^verbatim>\<open>repr\<close>, \<^verbatim>\<open>getattr\<close>) return;
  \<^item> the construction of \<^verbatim>\<open>SimulationParameters\<close> and of \<^verbatim>\<open>TradingAlgorithm\<close> and
    the call of \<^verbatim>\<open>run()\<close>, lines 188-212, are one collaborator.
\<close>

subsection \<open>Exceptions\<close>

text \<open>
  The \<^verbatim>\<open>except\<close> clauses of the module tell three classes apart: \<^verbatim>\<open>ValueError\<close>
  (lines 95, 179, 185), \<^verbatim>\<open>Exception\<close> (lines 104, 264) and everything else, which no
  clause catches (\<^verbatim>\<open>SystemExit\<close>, \<^verbatim>\<open>KeyboardInterrupt\<close>: subclasses of
  \<^verbatim>\<open>BaseException\<close> only).  \<open>RunAlgoError\<close> is the module's own
  \<^verbatim>\<open>_RunAlgoError(click.ClickException, ValueError)\<close> with its two messages;
  \<open>ValueError\<close> is any other instance of \<^verbatim>\<open>ValueError\<close>, with its \<^verbatim>\<open>str\<close>;
  \<open>OtherException\<close> is any other instance of \<^verbatim>\<open>Exception\<close> and \<open>NonException\<close> an
  exception outside \<^verbatim>\<open>Exception\<close>, each with the name of its class and its \<^verbatim>\<open>str\<close>.
\<close>

datatype exn =
    RunAlgoError (pyfunc_msg: string) (cmdline_msg: string)
  | ValueError string
  | OtherException string string
  | NonException string string

text \<open>\<^verbatim>\<open>_RunAlgoError.__init__(self, pyfunc_msg, cmdline_msg=None)\<close>, lines 45-50.\<close>

definition RunAlgoError_init :: "string \<Rightarrow> string option \<Rightarrow> exn" where
  "RunAlgoError_init pyfunc cmdline =
     RunAlgoError pyfunc (case cmdline of None \<Rightarrow> pyfunc | Some m \<Rightarrow> m)"

text \<open>\<^verbatim>\<open>str(e)\<close>; for \<^verbatim>\<open>_RunAlgoError\<close> it is \<^verbatim>\<open>__str__\<close>, lines 52-53.\<close>

fun str_exn :: "exn \<Rightarrow> string" where
  "str_exn (RunAlgoError pyfunc cmdline) = pyfunc"
| "str_exn (ValueError m) = m"
| "str_exn (OtherException cls m) = m"
| "str_exn (NonException cls m) = m"

fun is_Exception :: "exn \<Rightarrow> bool" where
  "is_Exception (NonException cls m) = False"
| "is_Exception e = True"

fun is_ValueError :: "exn \<Rightarrow> bool" where
  "is_ValueError (RunAlgoError pyfunc cmdline) = True"
| "is_ValueError (ValueError m) = True"
| "is_ValueError e = False"

subsection \<open>The process: loaded extensions, the world, and what was done to it\<close>

text \<open>
  \<open>loaded_extensions\<close> is the module's \<^verbatim>\<open>_loaded_extensions\<close>, line 223.  \<open>events\<close>
  is the trace of the calls the module makes to its collaborators, in order, one event for
  each call site:
  \<^item> \<open>EnsureFile\<close>: \<^verbatim>\<open>pth.ensure_file\<close>, line 248;
  \<^item> \<open>ExtensionAttempt\<close>: the body of the \<^verbatim>\<open>try\<close>, lines 258-263, with the outcome of
    the attempt (\<open>None\<close>: it completed);
  \<^item> \<open>Warning\<close>: \<^verbatim>\<open>warnings.warn\<close>, line 269, with the message;
  \<^item> \<open>LoadMarketData\<close>: line 83; \<open>GetIPython\<close>: line 87; \<open>Eval\<close>: line 103, with the
    expression; \<open>ReadAlgofile\<close>: line 116;
  \<^item> \<open>Highlight\<close>: line 120; \<open>Echo\<close>: \<^verbatim>\<open>click.echo\<close>, lines 127 and 215, with the text;
  \<^item> \<open>GetCalendar\<close>: line 130; \<open>BundlesLoad\<close>: line 141; \<open>NewDataPortal\<close>: line 152;
    \<open>NewPricingLoader\<close>: line 164; \<open>MetricsLoad\<close>: line 178; \<open>BlotterLoad\<close>: line 184;
  \<^item> \<open>RunAlgorithm\<close>: lines 188-212; \<open>ToPickle\<close>: line 217, with the destination and
    the frame.
\<close>

datatype 'o event =
    EnsureFile string
  | ExtensionAttempt string "exn option"
  | Warning string
  | LoadMarketData
  | GetIPython
  | Eval string
  | ReadAlgofile
  | Highlight "string option"
  | Echo string
  | GetCalendar string
  | BundlesLoad string
  | NewDataPortal
  | NewPricingLoader
  | MetricsLoad string
  | BlotterLoad string
  | RunAlgorithm
  | ToPickle string 'o

record ('w, 'o) process =
  loaded_extensions :: "string set"
  world :: 'w
  events :: "'o event list"

text \<open>
  An action runs in a state and returns a value or raises, leaving a state.  \<open>then_do\<close> is
  the sequence of two statements: when the first raises, the second is not run.  \<open>call\<close>
  is a call of a collaborator: it acts on the world, and the call is recorded.
\<close>

type_synonym ('s, 'a) action = "'s \<Rightarrow> (exn + 'a) \<times> 's"

definition return :: "'a \<Rightarrow> ('s, 'a) action" where
  "return a s = (Inr a, s)"

definition raise :: "exn \<Rightarrow> ('s, 'a) action" where
  "raise e s = (Inl e, s)"

definition then_do :: "('s, 'a) action \<Rightarrow> ('a \<Rightarrow> ('s, 'b) action) \<Rightarrow> ('s, 'b) action" where
  "then_do m f s = (case m s of (Inl e, s') \<Rightarrow> (Inl e, s') | (Inr a, s') \<Rightarrow> f a s')"

definition call :: "'o event \<Rightarrow> ('w, 'a) action \<Rightarrow> (('w, 'o) process, 'a) action" where
  "call ev f s =
     (case f (world s) of (r, w') \<Rightarrow> (r, s\<lparr>world := w', events := events s @ [ev]\<rparr>))"

definition emit :: "'o event \<Rightarrow> (('w, 'o) process, unit) action" where
  "emit ev s = (Inr (), s\<lparr>events := events s @ [ev]\<rparr>)"

subsection \<open>The collaborators\<close>

text \<open>\<^verbatim>\<open>os.name\<close>, as far as \<^verbatim>\<open>os.devnull\<close> depends on it.\<close>

datatype os_name = Posix | Nt

text \<open>\<^verbatim>\<open>os.devnull\<close>.\<close>

fun os_devnull :: "os_name \<Rightarrow> string" where
  "os_devnull Posix = ''/dev/null''"
| "os_devnull Nt = ''nul''"

type_synonym environ = "(string \<times> string) list"

text \<open>What \<^verbatim>\<open>bundles.load\<close> returns, as far as lines 148-167 read it.\<close>

record 'o bundle_data =
  asset_finder :: 'o
  equity_minute_bar_reader :: 'o
  equity_daily_bar_reader :: 'o
  adjustment_reader :: 'o

text \<open>
  What \<^verbatim>\<open>TradingAlgorithm(...)\<close> is constructed with, lines 188-211.  The strategy is
  either the callables \<^verbatim>\<open>initialize\<close>, \<^verbatim>\<open>handle_data\<close>, \<^verbatim>\<open>before_trading_start\<close>
  and \<^verbatim>\<open>analyze\<close>, in this order, or \<^verbatim>\<open>algo_filename\<close> and \<^verbatim>\<open>script\<close>.
\<close>

datatype 'o strategy =
    Callbacks "'o option" "'o option" "'o option" "'o option"
  | Script string string

record 'o sim_params =
  start_session :: 'o
  end_session :: 'o
  sp_trading_calendar :: 'o
  sp_capital_base :: 'o
  sp_data_frequency :: string

text \<open>
  The parameters of \<^verbatim>\<open>run_algorithm\<close>, lines 277-295.  \<^verbatim>\<open>_run\<close> and
  \<^verbatim>\<open>TradingAlgorithm\<close> have parameters of the same names; the fields of this record are
  written with their record's name (\<open>run_algorithm_args.start\<close>).
\<close>

datatype 'o component = Name string | Instance 'o

record 'o run_algorithm_args =
  start :: 'o
  "end" :: 'o
  initialize :: "'o option"
  capital_base :: 'o
  handle_data :: "'o option"
  before_trading_start :: "'o option"
  analyze :: "'o option"
  data_frequency :: string
  "bundle" :: string
  bundle_timestamp :: "'o option"
  data_portal :: "'o option"
  trading_calendar :: "'o option"
  metrics_set :: "'o component"
  benchmark_returns :: "'o option"
  default_extension :: bool
  extensions :: "string list"
  strict_extensions :: bool
  environ :: environ
  blotter :: "'o component"

record 'o algo_args =
  namespace :: "string \<rightharpoonup> 'o"
  data_portal :: 'o
  get_pipeline_loader :: "'o \<Rightarrow> exn + 'o"
  ta_trading_calendar :: 'o
  sim_params :: "'o sim_params"
  ta_metrics_set :: 'o
  ta_blotter :: 'o
  ta_benchmark_returns :: 'o
  strategy :: "'o strategy"

text \<open>
  The collaborators, named as the module names them.  \<open>repr\<close> and \<open>str\<close> are the two
  conversions of \<^verbatim>\<open>%r\<close> and \<^verbatim>\<open>%s\<close>; \<open>exec_script\<close> is lines 259-261 (open, read,
  compile, execute in a fresh namespace) and \<open>import_module\<close> is \<^verbatim>\<open>__import__\<close>;
  \<open>get_ipython_user_ns\<close> is \<^verbatim>\<open>get_ipython().user_ns\<close>; \<open>py_eval\<close> is \<^verbatim>\<open>eval\<close>;
  \<open>read\<close> is \<^verbatim>\<open>algofile.read()\<close> and \<open>getattr_name\<close> the attribute \<^verbatim>\<open>name\<close> of
  the file, if it has one; \<open>date\<close> is \<^verbatim>\<open>'%s' % d.date()\<close>; \<open>metrics_sets\<close> and
  \<open>blotter_factories\<close> are the two registries, which loading an extension can change;
  \<open>TradingAlgorithm_run\<close> is \<^verbatim>\<open>TradingAlgorithm(...).run()\<close> and \<open>to_pickle\<close> is
  \<^verbatim>\<open>perf.to_pickle(output)\<close>.
\<close>

record ('w, 'o) host =
  os_name :: os_name
  PYGMENTS :: bool
  repr :: "string \<Rightarrow> string"
  str :: "'o \<Rightarrow> string"
  default_extension :: "environ \<Rightarrow> string"
  ensure_file :: "string \<Rightarrow> ('w, unit) action"
  exec_script :: "string \<Rightarrow> ('w, unit) action"
  import_module :: "string \<Rightarrow> ('w, unit) action"
  load_market_data :: "environ \<Rightarrow> ('w, 'o \<times> 'o) action"
  get_ipython_user_ns :: "('w, string \<rightharpoonup> 'o) action"
  py_eval :: "string \<Rightarrow> (string \<rightharpoonup> 'o) \<Rightarrow> ('w, 'o) action"
  read :: "'o \<Rightarrow> ('w, string) action"
  getattr_name :: "'o \<Rightarrow> string option"
  highlight :: "string option \<Rightarrow> ('w, unit) action"
  get_calendar :: "string \<Rightarrow> ('w, 'o) action"
  session_distance :: "'o \<Rightarrow> 'o \<Rightarrow> 'o \<Rightarrow> int"
  date :: "'o \<Rightarrow> string"
  bundles_load :: "string \<Rightarrow> environ \<Rightarrow> 'o option \<Rightarrow> ('w, 'o bundle_data) action"
  first_trading_day :: "'o \<Rightarrow> 'o"
  DataPortal :: "'o \<Rightarrow> 'o \<Rightarrow> 'o \<Rightarrow> 'o \<Rightarrow> 'o \<Rightarrow> 'o \<Rightarrow> ('w, 'o) action"
  USEquityPricingLoader :: "'o \<Rightarrow> 'o \<Rightarrow> ('w, 'o) action"
  USEquityPricing_columns :: "'o set"
  metrics_sets :: "'w \<Rightarrow> string \<rightharpoonup> ('w, 'o) action"
  blotter_factories :: "'w \<Rightarrow> string \<rightharpoonup> ('w, 'o) action"
  TradingAlgorithm_run :: "'o algo_args \<Rightarrow> ('w, 'o) action"
  to_pickle :: "'o \<Rightarrow> string \<Rightarrow> ('w, unit) action"

text \<open>The parameters of \<^verbatim>\<open>_run\<close>, lines 56-77.\<close>

record 'o run_args =
  handle_data :: "'o option"
  initialize :: "'o option"
  before_trading_start :: "'o option"
  analyze :: "'o option"
  algofile :: "'o option"
  algotext :: "string option"
  "defines" :: "string list"
  data_frequency :: string
  capital_base :: 'o
  "bundle" :: string
  bundle_timestamp :: "'o option"
  custom_data_portal :: "'o option"
  start :: 'o
  "end" :: 'o
  "output" :: string
  trading_calendar :: "'o option"
  print_algo :: bool
  metrics_set :: "'o component"
  local_namespace :: bool
  environ :: environ
  blotter :: "'o component"
  benchmark_returns :: "'o option"

subsection \<open>\<^verbatim>\<open>load_extensions\<close>, lines 226-274\<close>

text \<open>\<^verbatim>\<open>str.endswith\<close>.\<close>

definition endswith :: "string \<Rightarrow> string \<Rightarrow> bool" where
  "endswith s suffix \<longleftrightarrow>
     length suffix \<le> length s \<and> drop (length s - length suffix) s = suffix"

text \<open>
  Lines 258-263, the body of the \<^verbatim>\<open>try\<close>: a name ending in \<^verbatim>\<open>.py\<close> is opened,
  compiled and executed in a fresh namespace (\<open>exec_script\<close>), any other name is imported
  (\<open>import_module\<close>).  The attempt and its outcome are recorded in the trace.
\<close>

definition load_one :: "('w, 'o) host \<Rightarrow> string \<Rightarrow> (('w, 'o) process, unit) action" where
  "load_one h ext s =
     (case (if endswith ext ''.py'' then exec_script h ext else import_module h ext) (world s) of
        (r, w') \<Rightarrow>
          (r, s\<lparr>world := w',
                 events := events s @
                   [ExtensionAttempt ext (case r of Inl e \<Rightarrow> Some e | Inr u \<Rightarrow> None)]\<rparr>))"

text \<open>
  Lines 269-272:
  \<^verbatim>\<open>warnings.warn('Failed to load extension: %r\n%s' % (ext, e), stacklevel=2)\<close>.
\<close>

definition failed_to_load :: "('w, 'o) host \<Rightarrow> string \<Rightarrow> exn \<Rightarrow> string" where
  "failed_to_load h ext e =
     ''Failed to load extension: '' @ repr h ext @ [CHR 0x0A] @ str_exn e"

text \<open>
  Lines 253-274, the loop over the extensions.  \<^verbatim>\<open>except Exception\<close> does not catch a
  \<open>NonException\<close>, which leaves the function whatever \<^verbatim>\<open>strict\<close> is.
\<close>

fun load_each ::
  "('w, 'o) host \<Rightarrow> bool \<Rightarrow> bool \<Rightarrow> string list \<Rightarrow> (('w, 'o) process, unit) action" where
  "load_each h strict reload [] s = (Inr (), s)"
| "load_each h strict reload (ext # exts) s =
     (if ext \<in> loaded_extensions s \<and> \<not> reload then load_each h strict reload exts s
      else
        (case load_one h ext s of
           (Inl e, s') \<Rightarrow>
             if is_Exception e then
               (if strict then (Inl e, s')
                else load_each h strict reload exts
                       (s'\<lparr>events := events s' @ [Warning (failed_to_load h ext e)]\<rparr>))
             else (Inl e, s')
         | (Inr u, s') \<Rightarrow>
             load_each h strict reload exts
               (s'\<lparr>loaded_extensions := insert ext (loaded_extensions s')\<rparr>)))"

text \<open>
  Lines 246-274.  When the default extension is asked for, its path is computed from the
  environment, the file is made sure of (a raise there leaves the function), and the path
  is put in front of the identifiers.  The parameters are in the order of the source:
  \<^verbatim>\<open>default\<close>, \<^verbatim>\<open>extensions\<close>, \<^verbatim>\<open>strict\<close>, \<^verbatim>\<open>environ\<close>, \<^verbatim>\<open>reload\<close>.
\<close>

definition load_extensions ::
  "('w, 'o) host \<Rightarrow> bool \<Rightarrow> string list \<Rightarrow> bool \<Rightarrow> environ \<Rightarrow> bool \<Rightarrow>
     (('w, 'o) process, unit) action" where
  "load_extensions h load_default exts strict env reload =
     (if load_default then
        then_do (call (EnsureFile (default_extension h env))
                   (ensure_file h (default_extension h env)))
          (\<lambda>u. load_each h strict reload (default_extension h env # exts))
      else load_each h strict reload exts)"



subsection \<open>\<^verbatim>\<open>_run\<close>, lines 56-219\<close>

text \<open>Lines 82-83: the benchmark series is loaded when none was passed.\<close>

definition resolve_benchmark :: "('w, 'o) host \<Rightarrow> 'o run_args \<Rightarrow> (('w, 'o) process, 'o) action" where
  "resolve_benchmark h a =
     (case benchmark_returns a of
        None \<Rightarrow>
          then_do (call LoadMarketData (load_market_data h (environ a)))
            (\<lambda>(benchmark, treasury). return benchmark)
      | Some benchmark \<Rightarrow> return benchmark)"

text \<open>\<^verbatim>\<open>s.split(sep, maxsplit)\<close> for a separator of one character.\<close>

fun py_split :: "char \<Rightarrow> nat \<Rightarrow> string \<Rightarrow> string list" where
  "py_split sep 0 s = [s]"
| "py_split sep (Suc n) s =
     (if sep \<in> set s
      then takeWhile (\<lambda>c. c \<noteq> sep) s # py_split sep n (tl (dropWhile (\<lambda>c. c \<noteq> sep) s))
      else [s])"

text \<open>
  Lines 93-99: \<^verbatim>\<open>name, value = assign.split('=', 2)\<close>.  The assignment to two targets
  raises \<^verbatim>\<open>ValueError\<close> unless the list has exactly two elements; the handler raises the
  \<^verbatim>\<open>ValueError\<close> of the module.
\<close>

definition invalid_define :: "('w, 'o) host \<Rightarrow> string \<Rightarrow> exn" where
  "invalid_define h assign =
     ValueError (''invalid define '' @ repr h assign @ '', should be of the form name=value'')"

definition split_define :: "('w, 'o) host \<Rightarrow> string \<Rightarrow> exn + string \<times> string" where
  "split_define h assign =
     (case py_split (CHR ''='') 2 assign of
        [name, value] \<Rightarrow> Inr (name, value)
      | _ \<Rightarrow> Inl (invalid_define h assign))"

text \<open>Lines 104-107: what the handler of \<^verbatim>\<open>except Exception as e\<close> raises.\<close>

definition failed_definition :: "('w, 'o) host \<Rightarrow> string \<Rightarrow> exn \<Rightarrow> exn" where
  "failed_definition h name e =
     ValueError (''failed to execute definition for name '' @ repr h name @ '': '' @ str_exn e)"

text \<open>
  Lines 92-107, the loop over \<^verbatim>\<open>defines\<close>.  The namespace is a dictionary that the loop
  updates in place, so the state of the loop is the namespace together with the process; on
  a raise the namespace is what the loop had made of it.  \<^verbatim>\<open>eval\<close> reads the namespace;
  the model does not let it rebind the namespace's names.
\<close>

fun evaluate_defines ::
  "('w, 'o) host \<Rightarrow> string list \<Rightarrow> ((string \<rightharpoonup> 'o) \<times> ('w, 'o) process, unit) action" where
  "evaluate_defines h [] (ns, s) = (Inr (), (ns, s))"
| "evaluate_defines h (assign # rest) (ns, s) =
     (case split_define h assign of
        Inl e \<Rightarrow> (Inl e, (ns, s))
      | Inr (name, value) \<Rightarrow>
          (case call (Eval value) (py_eval h value ns) s of
             (Inl e, s') \<Rightarrow>
               (Inl (if is_Exception e then failed_definition h name e else e), (ns, s'))
           | (Inr v, s') \<Rightarrow> evaluate_defines h rest (ns(name \<mapsto> v), s')))"

text \<open>Lines 109-112.\<close>

definition define_without_algotext :: exn where
  "define_without_algotext =
     RunAlgoError_init ''cannot pass define without `algotext`''
       (Some (''cannot pass '-D' / '--define' without '-t' / '--algotext'' @ [CHR 0x27]))"

text \<open>
  Lines 85-116: the namespace and the source text of the strategy.  The result is the pair
  of \<^verbatim>\<open>namespace\<close> and \<^verbatim>\<open>algotext\<close> as they stand at line 117.
\<close>

definition build_namespace ::
  "('w, 'o) host \<Rightarrow> 'o run_args \<Rightarrow> (('w, 'o) process, (string \<rightharpoonup> 'o) \<times> string option) action" where
  "build_namespace h a =
     (case algotext a of
        Some text \<Rightarrow>
          then_do (if local_namespace a then call GetIPython (get_ipython_user_ns h)
                   else return Map.empty)
            (\<lambda>ns s. case evaluate_defines h (defines a) (ns, s) of
                       (Inl e, (ns', s')) \<Rightarrow> (Inl e, s')
                     | (Inr u, (ns', s')) \<Rightarrow> (Inr (ns', Some text), s'))
      | None \<Rightarrow>
          if defines a \<noteq> [] then raise define_without_algotext
          else
            (case algofile a of
               None \<Rightarrow> return (Map.empty, None)
             | Some f \<Rightarrow> then_do (call ReadAlgofile (read h f)) (\<lambda>text. return (Map.empty, Some text))))"

text \<open>Lines 118-127; \<^verbatim>\<open>click.echo(None)\<close> writes the empty line.\<close>

definition echo_algo ::
  "('w, 'o) host \<Rightarrow> bool \<Rightarrow> string option \<Rightarrow> (('w, 'o) process, unit) action" where
  "echo_algo h print text =
     (if print then
        (if PYGMENTS h then call (Highlight text) (highlight h text)
         else emit (Echo (case text of None \<Rightarrow> [] | Some t \<Rightarrow> t)))
      else return ())"

text \<open>Lines 129-130.\<close>

definition resolve_calendar :: "('w, 'o) host \<Rightarrow> 'o run_args \<Rightarrow> (('w, 'o) process, 'o) action" where
  "resolve_calendar h a =
     (case trading_calendar a of
        None \<Rightarrow> call (GetCalendar ''XNYS'') (get_calendar h ''XNYS'')
      | Some calendar \<Rightarrow> return calendar)"

text \<open>Lines 82-130: everything \<^verbatim>\<open>_run\<close> does before it validates the dates.\<close>

definition prepare ::
  "('w, 'o) host \<Rightarrow> 'o run_args \<Rightarrow>
     (('w, 'o) process, 'o \<times> (string \<rightharpoonup> 'o) \<times> string option \<times> 'o) action" where
  "prepare h a =
     then_do (resolve_benchmark h a) (\<lambda>benchmark.
     then_do (build_namespace h a) (\<lambda>(ns, text).
     then_do (echo_algo h (print_algo a) text) (\<lambda>u.
     then_do (resolve_calendar h a) (\<lambda>calendar.
     return (benchmark, ns, text, calendar)))))"

text \<open>Lines 132-139.\<close>

definition no_trading_days :: "('w, 'o) host \<Rightarrow> 'o \<Rightarrow> 'o \<Rightarrow> exn" where
  "no_trading_days h start' end' =
     RunAlgoError_init
       (''There are no trading days between '' @ date h start' @ '' and '' @ date h end') None"

definition validate_dates ::
  "('w, 'o) host \<Rightarrow> 'o \<Rightarrow> 'o \<Rightarrow> 'o \<Rightarrow> (('w, 'o) process, unit) action" where
  "validate_dates h calendar start' end' =
     (if session_distance h calendar start' end' < 1 then raise (no_trading_days h start' end')
      else return ())"

text \<open>
  Lines 141-167: the bundle is loaded, the data portal is built unless one was passed, and
  the pricing loader is built.  The result is the pair of \<^verbatim>\<open>data\<close> and
  \<^verbatim>\<open>pipeline_loader\<close>.
\<close>

definition open_data ::
  "('w, 'o) host \<Rightarrow> 'o run_args \<Rightarrow> 'o \<Rightarrow> (('w, 'o) process, 'o \<times> 'o) action" where
  "open_data h a calendar =
     then_do (call (BundlesLoad (bundle a))
                (bundles_load h (bundle a) (environ a) (bundle_timestamp a))) (\<lambda>bd.
     then_do (case custom_data_portal a of
                None \<Rightarrow>
                  call NewDataPortal
                    (DataPortal h (asset_finder bd) calendar
                       (first_trading_day h (equity_minute_bar_reader bd))
                       (equity_minute_bar_reader bd) (equity_daily_bar_reader bd)
                       (adjustment_reader bd))
              | Some portal \<Rightarrow> return portal) (\<lambda>data.
     then_do (call NewPricingLoader
                (USEquityPricingLoader h (equity_daily_bar_reader bd) (adjustment_reader bd)))
       (\<lambda>pipeline_loader. return (data, pipeline_loader))))"

text \<open>Lines 169-174, the closure handed to the simulation as \<^verbatim>\<open>get_pipeline_loader\<close>.\<close>

definition no_loader_registered :: "('w, 'o) host \<Rightarrow> 'o \<Rightarrow> exn" where
  "no_loader_registered h column =
     ValueError (''No PipelineLoader registered for column '' @ str h column @ ''.'')"

definition choose_loader :: "('w, 'o) host \<Rightarrow> 'o \<Rightarrow> 'o \<Rightarrow> exn + 'o" where
  "choose_loader h pipeline_loader column =
     (if column \<in> USEquityPricing_columns h then Inr pipeline_loader
      else Inl (no_loader_registered h column))"

text \<open>
  Modelled from the spec: \<^verbatim>\<open>zipline.finance.metrics.load\<close> and
  \<^verbatim>\<open>zipline.extensions.load\<close> are not among the sources.  The spec has one registry per
  pluggable kind, each mapping a string key to a zero-argument factory, and a lookup that
  fails, naming the identifier and the kind, when the key is not registered.  The lookup
  raises a \<^verbatim>\<open>ValueError\<close>, the class that lines 179 and 185 catch.
\<close>

definition not_registered :: "string \<Rightarrow> string \<Rightarrow> string" where
  "not_registered kind name = ''no '' @ kind @ '' registered as '' @ name"

definition registry_load ::
  "string \<Rightarrow> ('w \<Rightarrow> string \<rightharpoonup> ('w, 'o) action) \<Rightarrow> string \<Rightarrow> ('w, 'o) action" where
  "registry_load kind registry name w =
     (case registry w name of
        None \<Rightarrow> (Inl (ValueError (not_registered kind name)), w)
      | Some factory \<Rightarrow> factory w)"

text \<open>
  Lines 177-180 and 183-186:
  \<^verbatim>\<open>try: ... except ValueError as e: raise _RunAlgoError(str(e))\<close>.
\<close>

definition as_RunAlgoError :: "('s, 'a) action \<Rightarrow> ('s, 'a) action" where
  "as_RunAlgoError m s =
     (case m s of
        (Inl e, s') \<Rightarrow> (Inl (if is_ValueError e then RunAlgoError_init (str_exn e) None else e), s')
      | (Inr x, s') \<Rightarrow> (Inr x, s'))"

text \<open>Lines 176-180.\<close>

definition resolve_metrics_set ::
  "('w, 'o) host \<Rightarrow> 'o component \<Rightarrow> (('w, 'o) process, 'o) action" where
  "resolve_metrics_set h m =
     (case m of
        Name name \<Rightarrow>
          as_RunAlgoError
            (call (MetricsLoad name) (registry_load ''metrics set'' (metrics_sets h) name))
      | Instance x \<Rightarrow> return x)"

text \<open>Lines 182-186.\<close>

definition resolve_blotter ::
  "('w, 'o) host \<Rightarrow> 'o component \<Rightarrow> (('w, 'o) process, 'o) action" where
  "resolve_blotter h b =
     (case b of
        Name name \<Rightarrow>
          as_RunAlgoError
            (call (BlotterLoad name) (registry_load ''blotter'' (blotter_factories h) name))
      | Instance x \<Rightarrow> return x)"

text \<open>
  Lines 188-211: the arguments of \<^verbatim>\<open>TradingAlgorithm\<close>.  The strategy is the four
  callables when there is no source text, the file name and the script otherwise.
\<close>

definition algorithm_args ::
  "('w, 'o) host \<Rightarrow> 'o run_args \<Rightarrow> 'o \<Rightarrow> (string \<rightharpoonup> 'o) \<Rightarrow> string option \<Rightarrow> 'o \<Rightarrow> 'o \<Rightarrow> 'o \<Rightarrow>
     'o \<Rightarrow> 'o \<Rightarrow> 'o algo_args" where
  "algorithm_args h a benchmark ns text calendar data pipeline_loader metrics blot =
     \<lparr>namespace = ns,
      algo_args.data_portal = data,
      get_pipeline_loader = choose_loader h pipeline_loader,
      ta_trading_calendar = calendar,
      sim_params =
        \<lparr>start_session = start a, end_session = end a, sp_trading_calendar = calendar,
         sp_capital_base = capital_base a, sp_data_frequency = data_frequency a\<rparr>,
      ta_metrics_set = metrics,
      ta_blotter = blot,
      ta_benchmark_returns = benchmark,
      strategy =
        (case text of
           None \<Rightarrow>
             Callbacks (initialize a) (handle_data a) (before_trading_start a) (analyze a)
         | Some script \<Rightarrow>
             Script (case algofile a of
                       None \<Rightarrow> ''<algorithm>''
                     | Some f \<Rightarrow> (case getattr_name h f of None \<Rightarrow> ''<algorithm>'' | Some n \<Rightarrow> n))
               script)\<rparr>"

text \<open>Lines 82-212: the run up to the performance frame \<^verbatim>\<open>perf\<close>.\<close>

definition simulate :: "('w, 'o) host \<Rightarrow> 'o run_args \<Rightarrow> (('w, 'o) process, 'o) action" where
  "simulate h a =
     then_do (prepare h a) (\<lambda>(benchmark, ns, text, calendar).
     then_do (validate_dates h calendar (start a) (end a)) (\<lambda>u.
     then_do (open_data h a calendar) (\<lambda>(data, pipeline_loader).
     then_do (resolve_metrics_set h (metrics_set a)) (\<lambda>metrics.
     then_do (resolve_blotter h (blotter a)) (\<lambda>blot.
     call RunAlgorithm
       (TradingAlgorithm_run h
          (algorithm_args h a benchmark ns text calendar data pipeline_loader metrics blot)))))))"

text \<open>Lines 214-219.\<close>

definition route_output :: "('w, 'o) host \<Rightarrow> string \<Rightarrow> 'o \<Rightarrow> (('w, 'o) process, 'o) action" where
  "route_output h out perf =
     then_do (if out = ''-'' then emit (Echo (str h perf))
              else if out \<noteq> os_devnull (os_name h) then call (ToPickle out perf) (to_pickle h perf out)
              else return ())
       (\<lambda>u. return perf)"

definition run :: "('w, 'o) host \<Rightarrow> 'o run_args \<Rightarrow> (('w, 'o) process, 'o) action" where
  "run h a = then_do (simulate h a) (route_output h (output a))"

subsection \<open>\<^verbatim>\<open>run_algorithm\<close>, lines 277-391\<close>

text \<open>Lines 368-391: the arguments \<^verbatim>\<open>run_algorithm\<close> calls \<^verbatim>\<open>_run\<close> with.\<close>

definition run_args_of :: "('w, 'o) host \<Rightarrow> 'o run_algorithm_args \<Rightarrow> 'o run_args" where
  "run_args_of h p =
     \<lparr>handle_data = run_algorithm_args.handle_data p,
      initialize = run_algorithm_args.initialize p,
      before_trading_start = run_algorithm_args.before_trading_start p,
      analyze = run_algorithm_args.analyze p,
      algofile = None,
      algotext = None,
      defines = [],
      data_frequency = run_algorithm_args.data_frequency p,
      capital_base = run_algorithm_args.capital_base p,
      bundle = run_algorithm_args.bundle p,
      bundle_timestamp = run_algorithm_args.bundle_timestamp p,
      custom_data_portal = run_algorithm_args.data_portal p,
      start = run_algorithm_args.start p,
      end = run_algorithm_args.end p,
      output = os_devnull (os_name h),
      trading_calendar = run_algorithm_args.trading_calendar p,
      print_algo = False,
      metrics_set = run_algorithm_args.metrics_set p,
      local_namespace = False,
      environ = run_algorithm_args.environ p,
      blotter = run_algorithm_args.blotter p,
      benchmark_returns = run_algorithm_args.benchmark_returns p\<rparr>"

text \<open>Line 366 and lines 368-391.\<close>

definition run_algorithm ::
  "('w, 'o) host \<Rightarrow> 'o run_algorithm_args \<Rightarrow> (('w, 'o) process, 'o) action" where
  "run_algorithm h p =
     then_do (load_extensions h (run_algorithm_args.default_extension p)
                (run_algorithm_args.extensions p) (run_algorithm_args.strict_extensions p)
                (run_algorithm_args.environ p) False)
       (\<lambda>u. run h (run_args_of h p))"

subsection \<open>Reading a trace\<close>

text \<open>The events that write to the display sink or persist the result.\<close>

fun prints_or_persists :: "'o event \<Rightarrow> bool" where
  "prints_or_persists (Echo text) = True"
| "prints_or_persists (Highlight text) = True"
| "prints_or_persists (ToPickle path perf) = True"
| "prints_or_persists ev = False"

text \<open>The events that open the bundle and what is built on it.\<close>

fun opens_bundle :: "'o event \<Rightarrow> bool" where
  "opens_bundle (BundlesLoad name) = True"
| "opens_bundle NewDataPortal = True"
| "opens_bundle NewPricingLoader = True"
| "opens_bundle ev = False"

text \<open>An action only appends to the trace, and only events that satisfy \<open>P\<close>.\<close>

definition emits :: "('o event \<Rightarrow> bool) \<Rightarrow> (('w, 'o) process \<Rightarrow> 'r \<times> ('w, 'o) process) \<Rightarrow> bool" where
  "emits P m \<longleftrightarrow> (\<forall>s. \<exists>new. events (snd (m s)) = events s @ new \<and> list_all P new)"

subsection \<open>A test double\<close>

text \<open>
  A host for running the functions on concrete inputs.  Its world is a counter of the
  extensions that were executed or imported, and its objects are strings.  The script
  \<^verbatim>\<open>bad.py\<close> raises a \<^verbatim>\<open>RuntimeError\<close> and \<^verbatim>\<open>quit.py\<close> calls
  \<^verbatim>\<open>sys.exit\<close>; the expression \<^verbatim>\<open>1/0\<close> raises, \<^verbatim>\<open>exit()\<close> leaves the
  interpreter, a name that is bound evaluates to its value and any other text to itself.
  The calendar has five sessions between two different days and none on a single day.
\<close>

definition stub_host :: "(nat, string) host" where
  "stub_host =
     \<lparr>os_name = Posix,
      PYGMENTS = False,
      repr = (\<lambda>s. [CHR 0x27] @ s @ [CHR 0x27]),
      str = (\<lambda>x. x),
      default_extension = (\<lambda>env. ''~/.zipline/extension.py''),
      ensure_file = (\<lambda>path w. (Inr (), w)),
      exec_script =
        (\<lambda>ext w.
           (if ext = ''bad.py'' then Inl (OtherException ''RuntimeError'' ''boom'')
            else if ext = ''quit.py'' then Inl (NonException ''SystemExit'' ''1'')
            else Inr (), Suc w)),
      import_module = (\<lambda>ext w. (Inr (), Suc w)),
      load_market_data = (\<lambda>env w. (Inr (''benchmark'', ''treasury''), w)),
      get_ipython_user_ns = (\<lambda>w. (Inr Map.empty, w)),
      py_eval =
        (\<lambda>value ns w.
           (if value = ''1/0'' then Inl (OtherException ''ZeroDivisionError'' ''division by zero'')
            else if value = ''exit()'' then Inl (NonException ''SystemExit'' ''None'')
            else (case ns value of Some v \<Rightarrow> Inr v | None \<Rightarrow> Inr value), w)),
      read = (\<lambda>f w. (Inr ''pass'', w)),
      getattr_name = (\<lambda>f. Some f),
      highlight = (\<lambda>text w. (Inr (), w)),
      get_calendar = (\<lambda>name w. (Inr name, w)),
      session_distance = (\<lambda>calendar d1 d2. if d1 = d2 then 0 else 5),
      date = (\<lambda>d. d),
      bundles_load =
        (\<lambda>name env timestamp w.
           (Inr \<lparr>asset_finder = ''finder'', equity_minute_bar_reader = ''minute bars'',
                 equity_daily_bar_reader = ''daily bars'',
                 adjustment_reader = ''adjustments''\<rparr>, w)),
      first_trading_day = (\<lambda>reader. ''first day''),
      DataPortal = (\<lambda>finder calendar day minute daily adjustments w. (Inr ''portal'', w)),
      USEquityPricingLoader = (\<lambda>daily adjustments w. (Inr ''pricing loader'', w)),
      USEquityPricing_columns = {''open'', ''high'', ''low'', ''close'', ''volume''},
      metrics_sets = (\<lambda>w. [''default'' \<mapsto> (\<lambda>w. (Inr ''default metrics'', w))]),
      blotter_factories = (\<lambda>w. [''default'' \<mapsto> (\<lambda>w. (Inr ''simulation blotter'', w))]),
      TradingAlgorithm_run = (\<lambda>args w. (Inr ''perf'', w)),
      to_pickle = (\<lambda>perf path w. (Inr (), w))\<rparr>"

definition fresh :: "(nat, string) process" where
  "fresh = \<lparr>loaded_extensions = {}, world = 0, events = []\<rparr>"

definition stub_args :: "string run_args" where
  "stub_args =
     \<lparr>handle_data = None, initialize = Some ''initialize'', before_trading_start = None,
      analyze = None, algofile = None, algotext = None, defines = [],
      data_frequency = ''daily'', capital_base = ''100000'', bundle = ''quantopian-quandl'',
      bundle_timestamp = None, custom_data_portal = None, start = ''2018-01-02'',
      end = ''2018-01-09'', output = ''-'', trading_calendar = None, print_algo = False,
      metrics_set = Name ''default'', local_namespace = False, environ = [],
      blotter = Name ''default'', benchmark_returns = None\<rparr>"

definition stub_call :: "string run_algorithm_args" where
  "stub_call =
     \<lparr>run_algorithm_args.start = ''2018-01-02'', run_algorithm_args.end = ''2018-01-09'',
      run_algorithm_args.initialize = Some ''initialize'',
      run_algorithm_args.capital_base = ''100000'', run_algorithm_args.handle_data = None,
      run_algorithm_args.before_trading_start = None, run_algorithm_args.analyze = None,
      run_algorithm_args.data_frequency = ''daily'',
      run_algorithm_args.bundle = ''quantopian-quandl'',
      run_algorithm_args.bundle_timestamp = None, data_portal = None,
      run_algorithm_args.trading_calendar = None,
      run_algorithm_args.metrics_set = Name ''default'',
      run_algorithm_args.benchmark_returns = None, default_extension = True,
      extensions = [''bad.py''], strict_extensions = False, run_algorithm_args.environ = [],
      run_algorithm_args.blotter = Name ''default''\<rparr>"

section \<open>Properties\<close>

subsection \<open>Traces of extension loads\<close>






lemma load_one_effect:
  assumes "load_one h ext s = (r, s')"
  shows "loaded_extensions s' = loaded_extensions s"
    and "events s' =
           events s @ [ExtensionAttempt ext (case r of Inl e \<Rightarrow> Some e | Inr u \<Rightarrow> None)]"
  using assms by (auto simp: load_one_def split: prod.splits)




subsection \<open>Claim C1: loading twice\<close>




subsection \<open>Claim C2: an extension whose load raises\<close>

lemma load_each_append:
  "load_each h strict reload (xs @ ys) s =
     (case load_each h strict reload xs s of
        (Inl e, s') \<Rightarrow> (Inl e, s')
      | (Inr u, s') \<Rightarrow> load_each h strict reload ys s')"
  by (induction xs arbitrary: s) (auto split: prod.splits sum.splits)

lemma load_extensions_append:
  "load_extensions h d (xs @ ys) strict env reload s =
     (case load_extensions h d xs strict env reload s of
        (Inl e, s') \<Rightarrow> (Inl e, s')
      | (Inr u, s') \<Rightarrow> load_each h strict reload ys s')"
  using load_each_append [of h strict reload "default_extension h env # xs" ys]
  by (auto simp: load_extensions_def load_each_append then_do_def split: prod.splits sum.splits)






subsection \<open>Claim C4: splitting an assignment string\<close>

lemma py_split_2:
  "py_split sep 2 s =
     (if sep \<in> set s then
        (if sep \<in> set (tl (dropWhile (\<lambda>c. c \<noteq> sep) s)) then
           [takeWhile (\<lambda>c. c \<noteq> sep) s,
            takeWhile (\<lambda>c. c \<noteq> sep) (tl (dropWhile (\<lambda>c. c \<noteq> sep) s)),
            tl (dropWhile (\<lambda>c. c \<noteq> sep) (tl (dropWhile (\<lambda>c. c \<noteq> sep) s)))]
         else [takeWhile (\<lambda>c. c \<noteq> sep) s, tl (dropWhile (\<lambda>c. c \<noteq> sep) s)])
      else [s])"
  by (simp add: numeral_2_eq_2)

lemma count_list_0_iff: "count_list xs x = 0 \<longleftrightarrow> x \<notin> set xs"
  by (induction xs) auto

lemma count_list_split:
  "sep \<in> set s \<Longrightarrow>
     count_list s sep = Suc (count_list (tl (dropWhile (\<lambda>c. c \<noteq> sep) s)) sep)"
  by (induction s) auto

text \<open>
  What lines 93-99 do with every string: a string with exactly one \<^verbatim>\<open>=\<close> is split
  there, and every other string is refused, the ones with two or more \<^verbatim>\<open>=\<close> as well
  as the ones with none.
\<close>

lemma split_define_cases:
  "split_define h assign =
     (if count_list assign (CHR ''='') = 1
      then Inr (takeWhile (\<lambda>c. c \<noteq> CHR ''='') assign,
                tl (dropWhile (\<lambda>c. c \<noteq> CHR ''='') assign))
      else Inl (invalid_define h assign))"
proof (cases "CHR ''='' \<in> set assign")
  case False
  then show ?thesis
    by (simp add: split_define_def py_split_2 count_list_0_iff)
next
  case True
  then show ?thesis
    using count_list_0_iff [of "tl (dropWhile (\<lambda>c. c \<noteq> CHR ''='') assign)" "CHR ''=''"]
    by (simp add: split_define_def py_split_2 count_list_split)
qed

lemmas run_stub =
  run_def simulate_def prepare_def resolve_benchmark_def build_namespace_def echo_algo_def
  resolve_calendar_def validate_dates_def open_data_def resolve_metrics_set_def
  resolve_blotter_def route_output_def algorithm_args_def as_RunAlgoError_def registry_load_def
  then_do_def call_def emit_def return_def raise_def split_define_cases
  stub_host_def stub_args_def fresh_def

text \<open>
  Claim C4 does not hold of the code.  The string \<^verbatim>\<open>x=1==1\<close> contains \<^verbatim>\<open>=\<close>, and
  splitting it on the first \<^verbatim>\<open>=\<close> gives the name \<^verbatim>\<open>x\<close> and the expression
  \<^verbatim>\<open>1==1\<close>; \<^verbatim>\<open>assign.split('=', 2)\<close> gives the three strings \<^verbatim>\<open>x\<close>, \<^verbatim>\<open>1\<close>,
  \<^verbatim>\<open>=1\<close>, the assignment to two targets raises, and the string is refused as an invalid
  define: for every host, and in a run of the test double with this one define.
\<close>

theorem split_define_second_equals:
  "split_define h ''x=1==1'' = Inl (invalid_define h ''x=1==1'') \<and>
   run stub_host (stub_args\<lparr>algotext := Some ''pass'', defines := [''x=1==1'']\<rparr>) fresh =
     (Inl (invalid_define stub_host ''x=1==1''), fresh\<lparr>events := [LoadMarketData]\<rparr>)"
  by (simp add: run_stub)

subsection \<open>Claim C5: the namespace is built in order\<close>






subsection \<open>What an action appends to the trace\<close>

lemma emitsD:
  "emits P m \<Longrightarrow> \<exists>new. events (snd (m s)) = events s @ new \<and> list_all P new"
  by (simp add: emits_def)

lemma emits_return: "emits P (return x)"
  by (simp add: emits_def return_def)

lemma emits_raise: "emits P (raise e)"
  by (simp add: emits_def raise_def)

lemma emits_call: "P ev \<Longrightarrow> emits P (call ev f)"
  by (simp add: emits_def call_def split: prod.splits)

lemma emits_emit: "P ev \<Longrightarrow> emits P (emit ev)"
  by (simp add: emits_def emit_def)

lemma emits_then_do:
  assumes "emits P m" and "\<And>x. emits P (f x)"
  shows "emits P (then_do m f)"
  unfolding emits_def
proof
  fix s
  obtain r s' where m: "m s = (r, s')" by (cases "m s")
  from emitsD [OF assms(1), of s] m obtain new1 where
    1: "events s' = events s @ new1" "list_all P new1" by auto
  show "\<exists>new. events (snd (then_do m f s)) = events s @ new \<and> list_all P new"
  proof (cases r)
    case (Inl e)
    then show ?thesis using m 1 by (auto simp: then_do_def)
  next
    case (Inr x)
    from emitsD [OF assms(2), of x s'] obtain new2 where
      2: "events (snd (f x s')) = events s' @ new2" "list_all P new2" by auto
    have "events (snd (then_do m f s)) = events s @ (new1 @ new2)"
      using m Inr 1 2 by (simp add: then_do_def)
    then show ?thesis using 1 2 by (metis list_all_append)
  qed
qed

lemma emits_as_RunAlgoError: "emits P m \<Longrightarrow> emits P (as_RunAlgoError m)"
  unfolding emits_def as_RunAlgoError_def
  by (auto split: prod.splits sum.splits) (metis snd_conv)+

lemma emits_if: "(c \<Longrightarrow> emits P m) \<Longrightarrow> (\<not> c \<Longrightarrow> emits P n) \<Longrightarrow> emits P (if c then m else n)"
  by simp

lemma emits_case_option:
  "emits P m \<Longrightarrow> (\<And>y. emits P (f y)) \<Longrightarrow> emits P (case x of None \<Rightarrow> m | Some y \<Rightarrow> f y)"
  by (cases x) simp_all

lemma emits_case_prod: "(\<And>a b. emits P (f a b)) \<Longrightarrow> emits P (case x of (a, b) \<Rightarrow> f a b)"
  by (cases x) simp

lemma emits_case_component:
  "(\<And>n. emits P (f n)) \<Longrightarrow> (\<And>y. emits P (g y)) \<Longrightarrow>
     emits P (case x of Name n \<Rightarrow> f n | Instance y \<Rightarrow> g y)"
  by (cases x) simp_all

lemmas emits_intros =
  emits_return emits_raise emits_call emits_emit emits_then_do emits_as_RunAlgoError emits_if
  emits_case_option emits_case_prod emits_case_component

lemma emits_load_each:
  assumes "\<And>ext r. P (ExtensionAttempt ext r)" and "\<And>m. P (Warning m)"
  shows "emits P (load_each h strict reload exts)"
  unfolding emits_def
proof
  fix s
  show "\<exists>new. events (snd (load_each h strict reload exts s)) = events s @ new \<and> list_all P new"
  proof (induction exts arbitrary: s)
    case Nil
    show ?case by simp
  next
    case (Cons ext exts)
    obtain r s' where one: "load_one h ext s = (r, s')" by (cases "load_one h ext s")
    note eff = load_one_effect [OF one]
    show ?case
    proof (cases "ext \<in> loaded_extensions s \<and> \<not> reload")
      case True
      then show ?thesis using Cons.IH [of s] by simp
    next
      case False
      show ?thesis
      proof (cases r)
        case (Inl e)
        from Cons.IH [of "s'\<lparr>events := events s' @ [Warning (failed_to_load h ext e)]\<rparr>"]
        obtain new where
          "events (snd (load_each h strict reload exts
              (s'\<lparr>events := events s' @ [Warning (failed_to_load h ext e)]\<rparr>))) =
             events s @ ([ExtensionAttempt ext (Some e), Warning (failed_to_load h ext e)] @ new)"
          "list_all P new"
          using eff(2) Inl by auto
        moreover have "list_all P [ExtensionAttempt ext (Some e)]"
          "list_all P ([ExtensionAttempt ext (Some e), Warning (failed_to_load h ext e)] @ new)"
          if "list_all P new" for new
          using assms that by simp_all
        ultimately show ?thesis
          using False one Inl eff(2) by (cases "is_Exception e \<and> \<not> strict") auto
      next
        case (Inr u)
        from Cons.IH [of "s'\<lparr>loaded_extensions := insert ext (loaded_extensions s')\<rparr>"]
        obtain new where
          "events (snd (load_each h strict reload exts
              (s'\<lparr>loaded_extensions := insert ext (loaded_extensions s')\<rparr>))) =
             events s @ (ExtensionAttempt ext None # new)"
          "list_all P new"
          using eff(2) Inr by auto
        moreover have "list_all P (ExtensionAttempt ext None # new)" if "list_all P new" for new
          using assms that by simp
        ultimately show ?thesis
          using False one Inr by auto
      qed
    qed
  qed
qed

lemma emits_load_extensions:
  assumes "\<And>ext r. P (ExtensionAttempt ext r)" and "\<And>m. P (Warning m)" and "\<And>p. P (EnsureFile p)"
  shows "emits P (load_extensions h d exts strict env reload)"
  unfolding load_extensions_def
  by (intro emits_intros emits_load_each assms)

lemma evaluate_defines_emits:
  assumes "\<And>v. P (Eval v)"
  shows "\<exists>new. events (snd (snd (evaluate_defines h ds (ns, s)))) = events s @ new \<and> list_all P new"
proof (induction ds arbitrary: ns s)
  case Nil
  show ?case by simp
next
  case (Cons a ds)
  show ?case
  proof (cases "split_define h a")
    case (Inl e)
    then show ?thesis by simp
  next
    case (Inr p)
    obtain n v where p: "p = (n, v)" by (cases p)
    obtain r w' where c: "py_eval h v ns (world s) = (r, w')"
      by (cases "py_eval h v ns (world s)")
    let ?s' = "s\<lparr>world := w', events := events s @ [Eval v]\<rparr>"
    show ?thesis
    proof (cases r)
      case (Inl e)
      then show ?thesis using Inr p c assms by (auto simp: call_def)
    next
      case r: (Inr x)
      from Cons.IH [of "ns(n \<mapsto> x)" ?s'] obtain new where
        new: "events (snd (snd (evaluate_defines h ds (ns(n \<mapsto> x), ?s')))) = events ?s' @ new"
          "list_all P new"
        by blast
      have run: "evaluate_defines h (a # ds) (ns, s) = evaluate_defines h ds (ns(n \<mapsto> x), ?s')"
        using Inr p c r by (simp add: call_def)
      have "events ?s' @ new = events s @ (Eval v # new)"
        by simp
      moreover have "list_all P (Eval v # new)"
        using assms new(2) by simp
      ultimately show ?thesis
        using new(1) run by metis
    qed
  qed
qed

lemma emits_build_namespace:
  assumes "P GetIPython" and "\<And>v. P (Eval v)" and "P ReadAlgofile"
  shows "emits P (build_namespace h a)"
proof -
  have "emits P (\<lambda>s. case evaluate_defines h ds (ns, s) of
                       (Inl e, (ns', s')) \<Rightarrow> (Inl e, s')
                     | (Inr u, (ns', s')) \<Rightarrow> (Inr (ns', Some src), s'))"
    for ds ns and src :: string
    unfolding emits_def
    using evaluate_defines_emits [of P h ds ns, OF assms(2)]
    by (auto split: prod.splits sum.splits) (metis snd_conv)+
  then show ?thesis
    unfolding build_namespace_def
    by (intro emits_intros assms)
qed

lemma emits_prepare:
  assumes "P LoadMarketData" and "P GetIPython" and "\<And>v. P (Eval v)" and "P ReadAlgofile"
    and "\<And>n. P (GetCalendar n)"
    and "\<And>t. print_algo a \<Longrightarrow> P (Highlight t)" and "\<And>t. print_algo a \<Longrightarrow> P (Echo t)"
  shows "emits P (prepare h a)"
  unfolding prepare_def resolve_benchmark_def echo_algo_def resolve_calendar_def
  by (intro emits_intros emits_build_namespace assms)

lemma emits_open_data:
  assumes "\<And>n. P (BundlesLoad n)" and "P NewDataPortal" and "P NewPricingLoader"
  shows "emits P (open_data h a calendar)"
  unfolding open_data_def by (intro emits_intros assms)

lemma emits_simulate:
  assumes "\<not> print_algo a"
  shows "emits (\<lambda>ev. \<not> prints_or_persists ev) (simulate h a)"
  unfolding simulate_def validate_dates_def resolve_metrics_set_def resolve_blotter_def
  by (intro emits_intros emits_prepare emits_open_data) (simp_all add: assms)

lemma then_do_assoc: "then_do (then_do m f) g = then_do m (\<lambda>x. then_do (f x) g)"
  by (auto simp: then_do_def fun_eq_iff split: prod.splits sum.splits)

lemma then_do_return: "then_do m return = m"
  by (auto simp: then_do_def return_def fun_eq_iff split: prod.splits sum.splits)

lemma call_then_first:
  assumes "\<And>x. emits (\<lambda>ev. True) (g x)" and "then_do (call ev f) g s = (r, s1)"
  shows "\<exists>new. events s1 = events s @ ev # new"
proof -
  obtain r0 w' where f: "f (world s) = (r0, w')" by (cases "f (world s)")
  let ?s' = "s\<lparr>world := w', events := events s @ [ev]\<rparr>"
  show ?thesis
  proof (cases r0)
    case (Inl e)
    then show ?thesis using f assms(2) by (auto simp: then_do_def call_def)
  next
    case (Inr x)
    then have "g x ?s' = (r, s1)"
      using f assms(2) by (simp add: then_do_def call_def)
    with emitsD [OF assms(1), of x ?s'] show ?thesis by auto
  qed
qed

subsection \<open>Claim C3: the dates are validated before the bundle is opened\<close>

text \<open>When no benchmark series is passed, the first thing a run does is load market data.\<close>

lemma prepare_loads_market_data:
  assumes "benchmark_returns a = None" and "prepare h a s = (r, s1)"
  shows "\<exists>new. events s1 = events s @ LoadMarketData # new"
proof -
  have "emits (\<lambda>ev. True) (build_namespace h a)"
    by (intro emits_build_namespace) simp_all
  with assms(2) show ?thesis
    unfolding prepare_def resolve_benchmark_def echo_algo_def resolve_calendar_def assms(1)
      option.case then_do_assoc
    by (intro call_then_first [of _ LoadMarketData _ s r s1]) (auto intro!: emits_intros)
qed


text \<open>
  Claim C3, as amended.  A run that comes to line 133 (the steps of lines 82-130 have
  returned: benchmark, namespace, echo of the source, calendar) with
  \<^verbatim>\<open>session_distance(start, end) < 1\<close> raises the \<^verbatim>\<open>_RunAlgoError\<close> whose message
  names the two dates, in the process those steps left.  By then the run has not loaded the
  bundle, built the data portal or built the pricing loader; and when no benchmark series
  was passed it has loaded market data, at lines 82-83.
\<close>

theorem dates_validated_before_bundle:
  assumes "prepare h a s = (Inr (benchmark, ns, src, calendar), s1)"
    and "session_distance h calendar (start a) (end a) < 1"
  shows "run h a s =
           (Inl (RunAlgoError
                   (''There are no trading days between '' @ date h (start a) @ '' and '' @
                      date h (end a))
                   (''There are no trading days between '' @ date h (start a) @ '' and '' @
                      date h (end a))), s1) \<and>
         (\<exists>new. events s1 = events s @ new \<and> list_all (\<lambda>ev. \<not> opens_bundle ev) new \<and>
                (benchmark_returns a = None \<longrightarrow> LoadMarketData \<in> set new))"
proof -
  have "run h a s = (Inl (no_trading_days h (start a) (end a)), s1)"
    using assms by (simp add: run_def simulate_def then_do_def validate_dates_def raise_def)
  then have 1: "run h a s =
           (Inl (RunAlgoError
                   (''There are no trading days between '' @ date h (start a) @ '' and '' @
                      date h (end a))
                   (''There are no trading days between '' @ date h (start a) @ '' and '' @
                      date h (end a))), s1)"
    by (simp add: no_trading_days_def RunAlgoError_init_def)
  have "emits (\<lambda>ev. \<not> opens_bundle ev) (prepare h a)"
    by (intro emits_prepare) simp_all
  from emitsD [OF this, of s] assms(1) obtain new where
    new: "events s1 = events s @ new" "list_all (\<lambda>ev. \<not> opens_bundle ev) new"
    by auto
  have "LoadMarketData \<in> set new" if "benchmark_returns a = None"
    using prepare_loads_market_data [OF that assms(1)] new(1) by auto
  then have "events s1 = events s @ new \<and> list_all (\<lambda>ev. \<not> opens_bundle ev) new \<and>
               (benchmark_returns a = None \<longrightarrow> LoadMarketData \<in> set new)"
    using new by simp
  then have "\<exists>new. events s1 = events s @ new \<and> list_all (\<lambda>ev. \<not> opens_bundle ev) new \<and>
               (benchmark_returns a = None \<longrightarrow> LoadMarketData \<in> set new)" ..
  with 1 show ?thesis by (rule conjI)
qed

text \<open>
  On the test double, with the source text \<^verbatim>\<open>pass\<close>, the define \<^verbatim>\<open>x=1\<close>, a
  benchmark series and the same day as start and end: the define is evaluated, the calendar
  is fetched, and the run raises.
\<close>

theorem dates_validated_before_bundle_witness:
  "run stub_host
     (stub_args\<lparr>algotext := Some ''pass'', defines := [''x=1''], end := ''2018-01-02'',
        benchmark_returns := Some ''benchmark''\<rparr>) fresh =
     (Inl (RunAlgoError ''There are no trading days between 2018-01-02 and 2018-01-02''
             ''There are no trading days between 2018-01-02 and 2018-01-02''),
      fresh\<lparr>events := [Eval ''1'', GetCalendar ''XNYS'']\<rparr>)"
proof -
  let ?a = "stub_args\<lparr>algotext := Some ''pass'', defines := [''x=1''], end := ''2018-01-02'',
              benchmark_returns := Some ''benchmark''\<rparr>"
  have p: "prepare stub_host ?a fresh =
             (Inr (''benchmark'', [''x'' \<mapsto> ''1''], Some ''pass'', ''XNYS''),
              fresh\<lparr>events := [Eval ''1'', GetCalendar ''XNYS'']\<rparr>)"
    by (simp add: run_stub)
  have d: "session_distance stub_host ''XNYS'' (start ?a) (end ?a) < 1"
    by (simp add: stub_host_def stub_args_def)
  from dates_validated_before_bundle [OF p d] show ?thesis
    by (simp add: stub_host_def stub_args_def)
qed

text \<open>
  Claim C3 as written fails: the validation does not run before any market data is read.
  With no benchmark series passed and the same day as start and end, the run that fails
  the validation has called \<^verbatim>\<open>load_market_data\<close> first.
\<close>

theorem dates_validated_before_bundle_counterexample:
  "run stub_host (stub_args\<lparr>end := ''2018-01-02''\<rparr>) fresh =
     (Inl (no_trading_days stub_host ''2018-01-02'' ''2018-01-02''),
      fresh\<lparr>events := [LoadMarketData, GetCalendar ''XNYS'']\<rparr>)"
  by (simp add: run_stub)

subsection \<open>Claim C6: defines without source text\<close>



subsection \<open>Claim C7: the metrics set and the blotter\<close>







subsection \<open>Claim C8: the dispatch of pipeline loaders\<close>

text \<open>
  Claim C8.  \<^verbatim>\<open>choose_loader\<close> returns the pricing loader for every column of
  \<^verbatim>\<open>USEquityPricing.columns\<close>, and for every other column it raises the
  \<^verbatim>\<open>ValueError\<close> whose message is \<^verbatim>\<open>No PipelineLoader registered for column\<close>
  followed by the column and a full stop.  It is the function the simulation is constructed
  with as \<^verbatim>\<open>get_pipeline_loader\<close>.
\<close>

theorem choose_loader_dispatch:
  "(column \<in> USEquityPricing_columns h \<longrightarrow> choose_loader h loader column = Inr loader) \<and>
   (column \<notin> USEquityPricing_columns h \<longrightarrow>
      choose_loader h loader column =
        Inl (ValueError (''No PipelineLoader registered for column '' @ str h column @ ''.''))) \<and>
   get_pipeline_loader (algorithm_args h a benchmark ns src calendar data loader metrics blot) =
     choose_loader h loader"
  by (simp add: choose_loader_def no_loader_registered_def algorithm_args_def)

text \<open>On the test double: the column \<^verbatim>\<open>close\<close> is registered, \<^verbatim>\<open>sentiment\<close> is not.\<close>

theorem choose_loader_dispatch_witness:
  "choose_loader stub_host ''pricing loader'' ''close'' = Inr ''pricing loader'' \<and>
   choose_loader stub_host ''pricing loader'' ''sentiment'' =
     Inl (ValueError ''No PipelineLoader registered for column sentiment.'')"
proof -
  have "''close'' \<in> USEquityPricing_columns stub_host"
    and "''sentiment'' \<notin> USEquityPricing_columns stub_host"
    by (simp_all add: stub_host_def)
  with choose_loader_dispatch [of "''close''" stub_host "''pricing loader''"]
    choose_loader_dispatch [of "''sentiment''" stub_host "''pricing loader''"]
  show ?thesis by (simp add: stub_host_def)
qed

subsection \<open>Claim C9: where the result goes\<close>

text \<open>
  Claim C9.  A run that returns \<open>perf\<close> is a simulation that returned \<open>perf\<close>, in a
  process \<open>s1\<close>, followed by the routing of lines 214-219, which looks at \<^verbatim>\<open>output\<close>
  only:
  \<^item> for \<^verbatim>\<open>-\<close> it echoes \<^verbatim>\<open>str(perf)\<close> and does nothing else;
  \<^item> for \<^verbatim>\<open>os.devnull\<close> it does nothing;
  \<^item> for any other destination it pickles \<open>perf\<close> there and does nothing else.
  In the three cases the value returned is the \<open>perf\<close> of the simulation.
\<close>

theorem output_routing:
  assumes "run h a s = (Inr perf, s')"
  shows "\<exists>s1. simulate h a s = (Inr perf, s1) \<and>
           (output a = ''-'' \<longrightarrow> s' = s1\<lparr>events := events s1 @ [Echo (str h perf)]\<rparr>) \<and>
           (output a \<noteq> ''-'' \<and> output a = os_devnull (os_name h) \<longrightarrow> s' = s1) \<and>
           (output a \<noteq> ''-'' \<and> output a \<noteq> os_devnull (os_name h) \<longrightarrow>
              (\<exists>w'. to_pickle h perf (output a) (world s1) = (Inr (), w') \<and>
                    s' = s1\<lparr>world := w', events := events s1 @ [ToPickle (output a) perf]\<rparr>))"
proof -
  obtain r s1 where sim: "simulate h a s = (r, s1)" by (cases "simulate h a s")
  show ?thesis
  proof (cases r)
    case (Inl e)
    then show ?thesis using assms sim by (simp add: run_def then_do_def)
  next
    case (Inr x)
    then have route: "route_output h (output a) x s1 = (Inr perf, s')"
      using assms sim by (simp add: run_def then_do_def)
    then have "x = perf"
      by (auto simp: route_output_def then_do_def return_def emit_def call_def
          split: if_splits prod.splits sum.splits)
    with route Inr sim show ?thesis
      by (auto simp: route_output_def then_do_def return_def emit_def call_def
          split: if_splits prod.splits sum.splits)
  qed
qed

text \<open>
  On the test double, for the destinations \<^verbatim>\<open>-\<close>, \<^verbatim>\<open>/dev/null\<close> and
  \<^verbatim>\<open>out.pickle\<close>: the run adds one echo, nothing, and one pickle to what the simulation
  did.
\<close>

theorem output_routing_witness:
  "simulate stub_host stub_args fresh =
     (Inr ''perf'',
      fresh\<lparr>events :=
        [LoadMarketData, GetCalendar ''XNYS'', BundlesLoad ''quantopian-quandl'', NewDataPortal,
         NewPricingLoader, MetricsLoad ''default'', BlotterLoad ''default'', RunAlgorithm]\<rparr>) \<and>
   events (snd (run stub_host stub_args fresh)) =
     events (snd (simulate stub_host stub_args fresh)) @ [Echo ''perf''] \<and>
   snd (run stub_host (stub_args\<lparr>output := ''/dev/null''\<rparr>) fresh) =
     snd (simulate stub_host (stub_args\<lparr>output := ''/dev/null''\<rparr>) fresh) \<and>
   events (snd (run stub_host (stub_args\<lparr>output := ''out.pickle''\<rparr>) fresh)) =
     events (snd (simulate stub_host (stub_args\<lparr>output := ''out.pickle''\<rparr>) fresh)) @
       [ToPickle ''out.pickle'' ''perf'']"
proof -
  let ?t = "fresh\<lparr>events :=
        [LoadMarketData, GetCalendar ''XNYS'', BundlesLoad ''quantopian-quandl'', NewDataPortal,
         NewPricingLoader, MetricsLoad ''default'', BlotterLoad ''default'', RunAlgorithm]\<rparr>"
  have sim: "simulate stub_host (stub_args\<lparr>output := out\<rparr>) fresh = (Inr ''perf'', ?t)" for out
    by (simp add: run_stub)
  have r1: "run stub_host (stub_args\<lparr>output := ''-''\<rparr>) fresh =
              (Inr ''perf'', snd (run stub_host (stub_args\<lparr>output := ''-''\<rparr>) fresh))"
    and r2: "run stub_host (stub_args\<lparr>output := ''/dev/null''\<rparr>) fresh =
              (Inr ''perf'', snd (run stub_host (stub_args\<lparr>output := ''/dev/null''\<rparr>) fresh))"
    and r3: "run stub_host (stub_args\<lparr>output := ''out.pickle''\<rparr>) fresh =
              (Inr ''perf'', snd (run stub_host (stub_args\<lparr>output := ''out.pickle''\<rparr>) fresh))"
    by (simp_all add: run_stub)
  have same: "stub_args\<lparr>output := ''-''\<rparr> = stub_args"
    by (simp add: stub_args_def)
  from output_routing [OF r1] sim [of "''-''"]
  have 1: "snd (run stub_host (stub_args\<lparr>output := ''-''\<rparr>) fresh) =
             ?t\<lparr>events := events ?t @ [Echo ''perf'']\<rparr>"
    by (auto simp: stub_host_def)
  from output_routing [OF r2] sim [of "''/dev/null''"]
  have 2: "snd (run stub_host (stub_args\<lparr>output := ''/dev/null''\<rparr>) fresh) = ?t"
    by (auto simp: stub_host_def)
  from output_routing [OF r3] sim [of "''out.pickle''"]
  have 3: "snd (run stub_host (stub_args\<lparr>output := ''out.pickle''\<rparr>) fresh) =
             ?t\<lparr>world := 0, events := events ?t @ [ToPickle ''out.pickle'' ''perf'']\<rparr>"
    by (auto simp: stub_host_def fresh_def)
  show ?thesis
    using 1 2 3 sim [of "''-''"] sim [of "''/dev/null''"] sim [of "''out.pickle''"]
    unfolding same by simp
qed

subsection \<open>Claim C10: \<^verbatim>\<open>run_algorithm\<close> discards the output\<close>

lemma os_devnull_not_dash: "os_devnull os \<noteq> ''-''"
  by (cases os) simp_all

lemma route_output_devnull: "route_output h (os_devnull (os_name h)) = return"
  using os_devnull_not_dash [of "os_name h"]
  by (simp add: route_output_def then_do_def return_def fun_eq_iff)

lemma run_discard: "output a = os_devnull (os_name h) \<Longrightarrow> run h a = simulate h a"
proof -
  assume "output a = os_devnull (os_name h)"
  then have "run h a = then_do (simulate h a) return"
    by (simp add: run_def route_output_devnull)
  then show ?thesis by (simp add: then_do_return)
qed

text \<open>
  Claim C10.  \<^verbatim>\<open>run_algorithm\<close> calls \<^verbatim>\<open>_run\<close> with \<^verbatim>\<open>output=os.devnull\<close> and
  \<^verbatim>\<open>print_algo=False\<close>, whatever its own arguments are.  So a call of
  \<^verbatim>\<open>run_algorithm\<close> is the loading of the extensions followed by the simulation alone:
  what it returns is what the simulation returned, in the process the simulation left, and
  nothing it appends to the trace echoes the source, prints the result or pickles it.
\<close>

theorem run_algorithm_discards_output:
  "output (run_args_of h p) = os_devnull (os_name h) \<and> \<not> print_algo (run_args_of h p) \<and>
   run_algorithm h p s =
     then_do (load_extensions h (run_algorithm_args.default_extension p)
                (run_algorithm_args.extensions p) (run_algorithm_args.strict_extensions p)
                (run_algorithm_args.environ p) False)
       (\<lambda>u. simulate h (run_args_of h p)) s \<and>
   (\<exists>new. events (snd (run_algorithm h p s)) = events s @ new \<and>
          list_all (\<lambda>ev. \<not> prints_or_persists ev) new)"
proof -
  have 1: "output (run_args_of h p) = os_devnull (os_name h)"
    and 2: "\<not> print_algo (run_args_of h p)"
    by (simp_all add: run_args_of_def)
  have 3: "run_algorithm h p =
     then_do (load_extensions h (run_algorithm_args.default_extension p)
                (run_algorithm_args.extensions p) (run_algorithm_args.strict_extensions p)
                (run_algorithm_args.environ p) False)
       (\<lambda>u. simulate h (run_args_of h p))"
    by (simp add: run_algorithm_def run_discard [OF 1])
  have "emits (\<lambda>ev. \<not> prints_or_persists ev) (run_algorithm h p)"
    unfolding 3
    by (intro emits_then_do emits_load_extensions emits_simulate 2) simp_all
  from emitsD [OF this, of s] 1 2 3 show ?thesis by simp
qed

text \<open>
  On the test double, with the default extension and \<^verbatim>\<open>bad.py\<close>, not strict: the call
  returns the performance frame, and its trace has no echo and no pickle.
\<close>

theorem run_algorithm_discards_output_witness:
  "run_algorithm stub_host stub_call fresh =
     (Inr ''perf'',
      \<lparr>loaded_extensions = {''~/.zipline/extension.py''}, world = 2,
       events =
        [EnsureFile ''~/.zipline/extension.py'',
         ExtensionAttempt ''~/.zipline/extension.py'' None,
         ExtensionAttempt ''bad.py'' (Some (OtherException ''RuntimeError'' ''boom'')),
         Warning (failed_to_load stub_host ''bad.py'' (OtherException ''RuntimeError'' ''boom'')),
         LoadMarketData, GetCalendar ''XNYS'', BundlesLoad ''quantopian-quandl'', NewDataPortal,
         NewPricingLoader, MetricsLoad ''default'', BlotterLoad ''default'', RunAlgorithm]\<rparr>) \<and>
   filter prints_or_persists (events (snd (run_algorithm stub_host stub_call fresh))) = []"
proof -
  from run_algorithm_discards_output [of stub_host stub_call fresh] obtain new where
    "events (snd (run_algorithm stub_host stub_call fresh)) = events fresh @ new"
    "list_all (\<lambda>ev. \<not> prints_or_persists ev) new"
    by blast
  then have "filter prints_or_persists (events (snd (run_algorithm stub_host stub_call fresh))) = []"
    by (simp add: fresh_def list_all_iff filter_empty_conv)
  moreover have "run_algorithm stub_host stub_call fresh =
     (Inr ''perf'',
      \<lparr>loaded_extensions = {''~/.zipline/extension.py''}, world = 2,
       events =
        [EnsureFile ''~/.zipline/extension.py'',
         ExtensionAttempt ''~/.zipline/extension.py'' None,
         ExtensionAttempt ''bad.py'' (Some (OtherException ''RuntimeError'' ''boom'')),
         Warning (failed_to_load stub_host ''bad.py'' (OtherException ''RuntimeError'' ''boom'')),
         LoadMarketData, GetCalendar ''XNYS'', BundlesLoad ''quantopian-quandl'', NewDataPortal,
         NewPricingLoader, MetricsLoad ''default'', BlotterLoad ''default'', RunAlgorithm]\<rparr>)"
    by (simp add: run_algorithm_def run_args_of_def load_extensions_def load_one_def endswith_def
        stub_call_def run_stub)
  ultimately show ?thesis by simp
qed

end
